theory Spec2Isabelle
  imports Main "HOL-Library.Word"
begin

section \<open>C strings and the string routines of the C library\<close>

text \<open>
  A \<open>char*\<close> argument and a \<open>char\<close> array are both a list of bytes: the memory from
  the pointer onwards. The C string such a region holds is the bytes before the first
  NUL (\<open>cstr\<close>); a string literal carries its terminator implicitly, so the end of the
  list reads as the terminator.
\<close>

type_synonym bytes = "char list"

definition NUL :: char where
  "NUL = CHR 0x00"

definition cstr :: "bytes \<Rightarrow> string" where
  "cstr b = takeWhile (\<lambda>c. c \<noteq> NUL) b"

definition strlen :: "bytes \<Rightarrow> nat" where
  "strlen b = length (cstr b)"

text \<open>
  \<open>size_t\<close> is unsigned and 64 bits wide: a difference below zero wraps around.
  Sums of string lengths stay in \<open>nat\<close>: no object is as large as the address space.
\<close>

definition size_sub :: "nat \<Rightarrow> nat \<Rightarrow> nat" where
  "size_sub a b = (if b \<le> a then a - b else a + 2 ^ 64 - b)"

text \<open>
  An automatic array is not initialised: its first contents are whatever the stack
  holds, \<open>stk\<close>, at the array's offset in the frame. A callee's frame lies beyond
  the caller's.
\<close>

definition auto_array :: "(nat \<Rightarrow> char) \<Rightarrow> nat \<Rightarrow> nat \<Rightarrow> bytes" where
  "auto_array stk off n = map stk [off..<off + n]"

definition callee :: "(nat \<Rightarrow> char) \<Rightarrow> nat \<Rightarrow> (nat \<Rightarrow> char)" where
  "callee stk frame = (\<lambda>i. stk (frame + i))"

text \<open>
  \<open>strncpy(dst, src, n)\<close> writes exactly \<open>n\<close> bytes: the string \<open>src\<close>, cut at
  \<open>n\<close> bytes, then NUL bytes up to \<open>n\<close>. When \<open>src\<close> has \<open>n\<close> bytes or more, no
  terminator is written.
\<close>

definition strncpy :: "bytes \<Rightarrow> bytes \<Rightarrow> nat \<Rightarrow> bytes" where
  "strncpy dst src n = take n (cstr src @ replicate n NUL) @ drop n dst"

text \<open>
  \<open>strncat(dst, src, n)\<close> writes at most \<open>n\<close> bytes of the string \<open>src\<close> over the
  terminator of \<open>dst\<close> and the bytes after it, and then a NUL.
\<close>

definition strncat :: "bytes \<Rightarrow> bytes \<Rightarrow> nat \<Rightarrow> bytes" where
  "strncat dst src n =
     (let k = strlen dst; app = take n (cstr src) @ [NUL]
      in take k dst @ app @ drop (k + length app) dst)"

text \<open>
  \<open>snprintf(dst, n, fmt, v)\<close>, given the text \<open>s\<close> that the format renders \<open>v\<close>
  into: at most \<open>n - 1\<close> bytes of \<open>s\<close> are stored, then a NUL; the text is cut
  silently when it is longer.
\<close>

definition snprintf :: "bytes \<Rightarrow> nat \<Rightarrow> string \<Rightarrow> bytes" where
  "snprintf dst n s =
     (if n = 0 then dst
      else let out = take (n - 1) s @ [NUL] in out @ drop (length out) dst)"

text \<open>The conversion \<open>%i\<close> of a 32-bit \<open>int\<close>: decimal digits, with a minus sign below zero.\<close>

fun dec :: "nat \<Rightarrow> string" where
  "dec n = (if n < 10 then [''0123456789'' ! n]
            else dec (n div 10) @ [''0123456789'' ! (n mod 10)])"

declare dec.simps [simp del]

definition fmt_i :: "32 word \<Rightarrow> string" where
  "fmt_i v = (if sint v < 0 then CHR ''-'' # dec (nat (- sint v)) else dec (nat (sint v)))"

section \<open>The socket and its system calls\<close>

text \<open>
  The socket is modelled with its environment: the trace of the system calls made on
  it, and what the operating system answers. \<open>send_returns\<close> tells, from the calls
  made so far and the bytes handed over, how many of them \<open>send\<close> takes (\<open>None\<close>:
  it fails and returns -1). \<open>arriving\<close> tells what \<open>recv\<close> finds when it returns:
  pending data (\<open>Data c cs\<close>, the bytes \<open>c # cs\<close>: at least one), the orderly
  shutdown of the peer with no data left, or an error. \<open>Close\<close> is the teardown of
  the descriptor by the operating system.
\<close>

datatype incoming = Data char bytes | Orderly_shutdown | Recv_error

datatype syscall = Send bytes | Recv nat "32 word" | Close

record transport =
  trace :: "syscall list"
  send_returns :: "syscall list \<Rightarrow> bytes \<Rightarrow> nat option"
  arriving :: "syscall list \<Rightarrow> incoming"

definition send :: "transport \<Rightarrow> bytes \<Rightarrow> nat \<Rightarrow> int \<times> transport" where
  "send t buf len =
     (case send_returns t (trace t) (take len buf) of
        None \<Rightarrow> -1
      | Some k \<Rightarrow> int (min k len),
      t\<lparr>trace := trace t @ [Send (take len buf)]\<rparr>)"

text \<open>
  \<open>recv(socket, buf, len, flags)\<close> on a stream socket (\<open>create_default_socket\<close> asks
  for \<open>SOCK_STREAM\<close>) stores at most \<open>len\<close> of the pending bytes and returns how
  many; it returns 0 at an orderly shutdown, and also when 0 bytes were asked for; it
  returns -1 on error.
\<close>

definition recv :: "transport \<Rightarrow> nat \<Rightarrow> 32 word \<Rightarrow> int \<times> bytes \<times> transport" where
  "recv t len flags =
     (let t' = t\<lparr>trace := trace t @ [Recv len flags]\<rparr>
      in case arriving t (trace t) of
           Data c cs \<Rightarrow> (int (length (take len (c # cs))), take len (c # cs), t')
         | Orderly_shutdown \<Rightarrow> (0, [], t')
         | Recv_error \<Rightarrow> (-1, [], t'))"

section \<open>The library\<close>

text \<open>
  Every function takes the socket with its environment and returns its \<open>int\<close> result
  with the socket afterwards. \<open>send\<close> returns at most the length it was given, which
  is below 512, so its result reaches the \<open>int\<close> return type unchanged.
\<close>

definition send_command_to_variable_server ::
  "(nat \<Rightarrow> char) \<Rightarrow> transport \<Rightarrow> bytes \<Rightarrow> int \<times> transport" where
  "send_command_to_variable_server stk t command =
     (let cmd = auto_array stk 0 512 in
      if 512 < strlen command + 2 then (-1, t)
      else
        let cmd = strncpy cmd command 512;
            cmd = strncat cmd ''\<newline>'' (size_sub (size_sub 512 (strlen cmd)) 1)
        in send t cmd (strlen cmd))"

definition set_ascii :: "(nat \<Rightarrow> char) \<Rightarrow> transport \<Rightarrow> int \<times> transport" where
  "set_ascii stk t =
     (case send_command_to_variable_server (callee stk 0) t ''trick.var_ascii()'' of
        (r, t') \<Rightarrow> if r < 0 then (-1, t') else (0, t'))"

definition set_binary :: "(nat \<Rightarrow> char) \<Rightarrow> transport \<Rightarrow> int \<times> transport" where
  "set_binary stk t =
     (case send_command_to_variable_server (callee stk 0) t ''trick.var_binary()'' of
        (r, t') \<Rightarrow> if r < 0 then (-1, t') else (0, t'))"

definition set_binary_no_names :: "(nat \<Rightarrow> char) \<Rightarrow> transport \<Rightarrow> int \<times> transport" where
  "set_binary_no_names stk t =
     (case send_command_to_variable_server (callee stk 0) t ''trick.var_binary_nonames()'' of
        (r, t') \<Rightarrow> if r < 0 then (-1, t') else (0, t'))"

definition set_sync :: "(nat \<Rightarrow> char) \<Rightarrow> transport \<Rightarrow> int \<times> transport" where
  "set_sync stk t =
     (case send_command_to_variable_server (callee stk 0) t ''trick.var_sync(1)'' of
        (r, t') \<Rightarrow> if r < 0 then (-1, t') else (0, t'))"

definition pause :: "(nat \<Rightarrow> char) \<Rightarrow> transport \<Rightarrow> int \<times> transport" where
  "pause stk t =
     (case send_command_to_variable_server (callee stk 0) t ''trick.var_pause()'' of
        (r, t') \<Rightarrow> if r < 0 then (-1, t') else (0, t'))"

definition unpause :: "(nat \<Rightarrow> char) \<Rightarrow> transport \<Rightarrow> int \<times> transport" where
  "unpause stk t =
     (case send_command_to_variable_server (callee stk 0) t ''trick.var_unpause()'' of
        (r, t') \<Rightarrow> if r < 0 then (-1, t') else (0, t'))"

definition add_variable_to_server ::
  "(nat \<Rightarrow> char) \<Rightarrow> transport \<Rightarrow> bytes \<Rightarrow> int \<times> transport" where
  "add_variable_to_server stk t variable_name =
     (let cmd = auto_array stk 0 512;
          prefix = ''trick.var_add(\"'';
          suffix = ''\")''
      in if 512 < strlen prefix + strlen variable_name + strlen suffix + 1 then (-1, t)
         else
           let cmd = strncpy cmd prefix 512;
               cmd = strncat cmd variable_name (size_sub (size_sub 512 (strlen cmd)) 1);
               cmd = strncat cmd suffix (size_sub (size_sub 512 (strlen cmd)) 1)
           in case send_command_to_variable_server (callee stk 512) t cmd of
                (r, t') \<Rightarrow> if r < 0 then (-1, t') else (0, t'))"

text \<open>
  The function is spelled \<open>sever\<close> in the source. \<open>infx\<close> is the string the source
  puts between the two arguments.
\<close>

definition add_variable_to_sever_with_units ::
  "(nat \<Rightarrow> char) \<Rightarrow> transport \<Rightarrow> bytes \<Rightarrow> bytes \<Rightarrow> int \<times> transport" where
  "add_variable_to_sever_with_units stk t variable_name units =
     (let cmd = auto_array stk 0 512;
          prefix = ''trick.var_add(\"'';
          infx = ''\", \"'';
          suffix = ''\")''
      in if 512 < strlen prefix + strlen variable_name + strlen infx + strlen units
                    + strlen suffix + 1 then (-1, t)
         else
           let cmd = strncpy cmd prefix 512;
               cmd = strncat cmd variable_name (size_sub (size_sub 512 (strlen cmd)) 1);
               cmd = strncat cmd infx (size_sub (size_sub 512 (strlen cmd)) 1);
               cmd = strncat cmd units (size_sub (size_sub 512 (strlen cmd)) 1);
               cmd = strncat cmd suffix (size_sub (size_sub 512 (strlen cmd)) 1)
           in case send_command_to_variable_server (callee stk 512) t cmd of
                (r, t') \<Rightarrow> if r < 0 then (-1, t') else (0, t'))"

definition remove_variable_from_server ::
  "(nat \<Rightarrow> char) \<Rightarrow> transport \<Rightarrow> bytes \<Rightarrow> int \<times> transport" where
  "remove_variable_from_server stk t variable_name =
     (let cmd = auto_array stk 0 512;
          prefix = ''trick.var_remove(\"'';
          suffix = ''\")''
      in if 512 < strlen prefix + strlen variable_name + strlen suffix + 1 then (-1, t)
         else
           let cmd = strncpy cmd prefix 512;
               cmd = strncat cmd variable_name (size_sub (size_sub 512 (strlen cmd)) 1);
               cmd = strncat cmd suffix (size_sub (size_sub 512 (strlen cmd)) 1)
           in case send_command_to_variable_server (callee stk 512) t cmd of
                (r, t') \<Rightarrow> if r < 0 then (-1, t') else (0, t'))"

definition clear :: "(nat \<Rightarrow> char) \<Rightarrow> transport \<Rightarrow> int \<times> transport" where
  "clear stk t =
     (case send_command_to_variable_server (callee stk 0) t ''trick.var_clear()'' of
        (r, t') \<Rightarrow> if r < 0 then (-1, t') else (0, t'))"

text \<open>
  \<open>set_cycle\<close> renders its \<open>double\<close> with \<open>%lf\<close>. Floating point is outside the
  model: the rendering is the parameter \<open>lf\<close>. It is not a function of the number
  alone: \<open>snprintf\<close> takes the decimal point from the numeric locale of the process
  (\<open>LC_NUMERIC\<close>), a global that \<open>set_cycle\<close> reads and nothing in the library sets.
  So \<open>lf\<close> stands for the rendering under the locale in force at the call.
\<close>

definition set_cycle ::
  "('d \<Rightarrow> string) \<Rightarrow> (nat \<Rightarrow> char) \<Rightarrow> transport \<Rightarrow> 'd \<Rightarrow> int \<times> transport" where
  "set_cycle lf stk t period =
     (let cmd = auto_array stk 0 512;
          prefix = ''trick.var_cycle('';
          per = auto_array stk 512 128;
          suffix = '')'';
          per = snprintf per 128 (lf period)
      in if 512 < strlen prefix + strlen per + strlen suffix + 1 then (-1, t)
         else
           let cmd = strncpy cmd prefix 512;
               cmd = strncat cmd per (size_sub (size_sub 512 (strlen cmd)) 1);
               cmd = strncat cmd suffix (size_sub (size_sub 512 (strlen cmd)) 1)
           in case send_command_to_variable_server (callee stk 640) t cmd of
                (r, t') \<Rightarrow> if r < 0 then (-1, t') else (0, t'))"

text \<open>The array \<open>mod\<close> of the source is \<open>mod'\<close> here; it holds 3 bytes and the terminator.\<close>

definition set_copy_mode ::
  "(nat \<Rightarrow> char) \<Rightarrow> transport \<Rightarrow> 32 word \<Rightarrow> int \<times> transport" where
  "set_copy_mode stk t mode =
     (let cmd = auto_array stk 0 512;
          prefix = ''trick.var_set_copy_mode('';
          mod' = auto_array stk 512 4;
          suffix = '')'';
          mod' = snprintf mod' 4 (fmt_i mode)
      in if 512 < strlen prefix + strlen mod' + strlen suffix + 1 then (-1, t)
         else
           let cmd = strncpy cmd prefix 512;
               cmd = strncat cmd mod' (size_sub (size_sub 512 (strlen cmd)) 1);
               cmd = strncat cmd suffix (size_sub (size_sub 512 (strlen cmd)) 1)
           in case send_command_to_variable_server (callee stk 516) t cmd of
                (r, t') \<Rightarrow> if r < 0 then (-1, t') else (0, t'))"

definition poll :: "(nat \<Rightarrow> char) \<Rightarrow> transport \<Rightarrow> int \<times> transport" where
  "poll stk t =
     (case send_command_to_variable_server (callee stk 0) t ''trick.var_send()'' of
        (r, t') \<Rightarrow> if r < 0 then (-1, t') else (0, t'))"

definition run :: "(nat \<Rightarrow> char) \<Rightarrow> transport \<Rightarrow> int \<times> transport" where
  "run stk t =
     (case send_command_to_variable_server (callee stk 0) t ''trick.exec_run()'' of
        (r, t') \<Rightarrow> if r < 0 then (-1, t') else (0, t'))"

definition freeze :: "(nat \<Rightarrow> char) \<Rightarrow> transport \<Rightarrow> int \<times> transport" where
  "freeze stk t =
     (case send_command_to_variable_server (callee stk 0) t ''trick.exec_freeze()'' of
        (r, t') \<Rightarrow> if r < 0 then (-1, t') else (0, t'))"

text \<open>
  \<open>close\<close> calls \<open>close\<close>: the only function of that name in scope is the one being
  defined (the file includes no header that declares another), so the call in the
  success branch is a recursive call, and the function need not return.
\<close>

partial_function (option) close ::
  "(nat \<Rightarrow> char) \<Rightarrow> transport \<Rightarrow> (int \<times> transport) option" where
  "close stk t =
     (case send_command_to_variable_server (callee stk 0) t ''trick.var_exit()'' of
        (r, t') \<Rightarrow>
          if r < 0 then Some (-1, t')
          else Option.bind (close (callee stk 0) t') (\<lambda>(_, t''). Some (0, t'')))"

definition set_validate_addresses ::
  "(nat \<Rightarrow> char) \<Rightarrow> transport \<Rightarrow> 32 word \<Rightarrow> int \<times> transport" where
  "set_validate_addresses stk t validate =
     (let cmd = auto_array stk 0 256;
          prefix = ''trick.var_validate_address('';
          val = auto_array stk 256 16;
          suffix = '')'';
          val = (if 0 < sint validate then strncpy val ''True'' 16
                 else strncpy val ''False'' 16)
      in if 256 < strlen prefix + strlen val + strlen suffix + 1 then (-1, t)
         else
           let cmd = strncpy cmd prefix 256;
               cmd = strncat cmd val (size_sub (size_sub 256 (strlen cmd)) 1);
               cmd = strncat cmd suffix (size_sub (size_sub 256 (strlen cmd)) 1)
           in case send_command_to_variable_server (callee stk 272) t cmd of
                (r, t') \<Rightarrow> if r < 0 then (-1, t') else (0, t'))"

definition set_real_time ::
  "(nat \<Rightarrow> char) \<Rightarrow> transport \<Rightarrow> 32 word \<Rightarrow> int \<times> transport" where
  "set_real_time stk t enabled =
     (let cmd = auto_array stk 0 256;
          prefix = ''trick.real_time_'';
          enab = auto_array stk 256 16;
          suffix = ''()'';
          enab = (if 0 < sint enabled then strncpy enab ''enable'' 16
                  else strncpy enab ''disable'' 16)
      in if 256 < strlen prefix + strlen enab + strlen suffix + 1 then (-1, t)
         else
           let cmd = strncpy cmd prefix 256;
               cmd = strncat cmd enab (size_sub (size_sub 256 (strlen cmd)) 1);
               cmd = strncat cmd suffix (size_sub (size_sub 256 (strlen cmd)) 1)
           in case send_command_to_variable_server (callee stk 272) t cmd of
                (r, t') \<Rightarrow> if r < 0 then (-1, t') else (0, t'))"

definition set_debug_level ::
  "(nat \<Rightarrow> char) \<Rightarrow> transport \<Rightarrow> 32 word \<Rightarrow> int \<times> transport" where
  "set_debug_level stk t level =
     (let cmd = auto_array stk 0 256;
          prefix = ''trick.var_debug('';
          lev = auto_array stk 256 64;
          suffix = '')'';
          lev = snprintf lev 64 (fmt_i level)
      in if 256 < strlen prefix + strlen lev + strlen suffix + 1 then (-1, t)
         else
           let cmd = strncpy cmd prefix 256;
               cmd = strncat cmd lev (size_sub (size_sub 256 (strlen cmd)) 1);
               cmd = strncat cmd suffix (size_sub (size_sub 256 (strlen cmd)) 1)
           in case send_command_to_variable_server (callee stk 320) t cmd of
                (r, t') \<Rightarrow> if r < 0 then (-1, t') else (0, t'))"

definition set_client_tag ::
  "(nat \<Rightarrow> char) \<Rightarrow> transport \<Rightarrow> bytes \<Rightarrow> int \<times> transport" where
  "set_client_tag stk t tag =
     (let cmd = auto_array stk 0 512;
          prefix = ''trick.var_set_client_tag(\"'';
          suffix = ''\")''
      in if 512 < strlen prefix + strlen tag + strlen suffix + 1 then (-1, t)
         else
           let cmd = strncpy cmd prefix 512;
               cmd = strncat cmd tag (size_sub (size_sub 512 (strlen cmd)) 1);
               cmd = strncat cmd suffix (size_sub (size_sub 512 (strlen cmd)) 1)
           in case send_command_to_variable_server (callee stk 512) t cmd of
                (r, t') \<Rightarrow> if r < 0 then (-1, t') else (0, t'))"

text \<open>
  The result of \<open>recv\<close> (\<open>ssize_t\<close>, 64 bits) is returned as an \<open>int\<close> of 32 bits;
  \<open>lenght\<close> is an \<open>unsigned int\<close>. The second component is what was stored in
  \<open>server_reply\<close>.
\<close>

definition receive_message_from_variable_server ::
  "transport \<Rightarrow> 32 word \<Rightarrow> 32 word \<Rightarrow> int \<times> bytes \<times> transport" where
  "receive_message_from_variable_server t lenght flags =
     (case recv t (unat lenght) flags of
        (r, server_reply, t') \<Rightarrow> (sint (word_of_int r :: 32 word), server_reply, t'))"

section \<open>Vocabulary of the specification\<close>

text \<open>The byte strings handed to \<open>send\<close> in a trace, oldest first.\<close>

fun sent :: "syscall list \<Rightarrow> bytes list" where
  "sent [] = []"
| "sent (Send b # cs) = b # sent cs"
| "sent (Recv n f # cs) = sent cs"
| "sent (Close # cs) = sent cs"

text \<open>The transport writes, and the teardowns, made between two states of the socket.\<close>

definition writes :: "transport \<Rightarrow> transport \<Rightarrow> bytes list" where
  "writes t t' = sent (drop (length (trace t)) (trace t'))"

definition teardowns :: "transport \<Rightarrow> transport \<Rightarrow> nat" where
  "teardowns t t' = length (filter (\<lambda>c. c = Close) (drop (length (trace t)) (trace t')))"

text \<open>One call of \<open>send\<close> on a whole byte string.\<close>

definition transmit :: "transport \<Rightarrow> bytes \<Rightarrow> int \<times> transport" where
  "transmit t line = send t line (length line)"

text \<open>What the command functions make of the result of the send: 0 or -1.\<close>

definition report :: "int \<times> transport \<Rightarrow> int \<times> transport" where
  "report x = (case x of (r, t') \<Rightarrow> if r < 0 then (-1, t') else (0, t'))"

section \<open>The documented commands\<close>

text \<open>
  The command-building operations of the specification, one constructor each, with the
  library function that implements it.
\<close>

datatype 'd command =
    Set_ascii | Set_binary | Set_binary_no_names | Set_sync | Pause | Unpause
  | Add_variable bytes | Add_variable_with_units bytes bytes | Remove_variable bytes
  | Clear | Set_cycle 'd | Set_copy_mode "32 word" | Poll | Run | Freeze
  | Set_validate_addresses "32 word" | Set_real_time "32 word"
  | Set_debug_level "32 word" | Set_client_tag bytes

fun perform ::
  "('d \<Rightarrow> string) \<Rightarrow> (nat \<Rightarrow> char) \<Rightarrow> transport \<Rightarrow> 'd command \<Rightarrow> int \<times> transport" where
  "perform lf stk t Set_ascii = set_ascii stk t"
| "perform lf stk t Set_binary = set_binary stk t"
| "perform lf stk t Set_binary_no_names = set_binary_no_names stk t"
| "perform lf stk t Set_sync = set_sync stk t"
| "perform lf stk t Pause = pause stk t"
| "perform lf stk t Unpause = unpause stk t"
| "perform lf stk t (Add_variable name) = add_variable_to_server stk t name"
| "perform lf stk t (Add_variable_with_units name units) =
     add_variable_to_sever_with_units stk t name units"
| "perform lf stk t (Remove_variable name) = remove_variable_from_server stk t name"
| "perform lf stk t Clear = clear stk t"
| "perform lf stk t (Set_cycle period) = set_cycle lf stk t period"
| "perform lf stk t (Set_copy_mode mode) = set_copy_mode stk t mode"
| "perform lf stk t Poll = poll stk t"
| "perform lf stk t Run = run stk t"
| "perform lf stk t Freeze = freeze stk t"
| "perform lf stk t (Set_validate_addresses validate) = set_validate_addresses stk t validate"
| "perform lf stk t (Set_real_time enabled) = set_real_time stk t enabled"
| "perform lf stk t (Set_debug_level level) = set_debug_level stk t level"
| "perform lf stk t (Set_client_tag tag) = set_client_tag stk t tag"

text \<open>
  The wire text the specification documents for each command (its table of templates,
  with \<open>trick\<close> for the namespace), the arguments substituted whole. The flags of
  \<open>set_validate_addresses\<close> and \<open>set_real_time\<close> read as their doc comments say:
  above 0 for true.
\<close>

fun template :: "('d \<Rightarrow> string) \<Rightarrow> 'd command \<Rightarrow> string" where
  "template lf Set_ascii = ''trick.var_ascii()''"
| "template lf Set_binary = ''trick.var_binary()''"
| "template lf Set_binary_no_names = ''trick.var_binary_nonames()''"
| "template lf Set_sync = ''trick.var_sync(1)''"
| "template lf Pause = ''trick.var_pause()''"
| "template lf Unpause = ''trick.var_unpause()''"
| "template lf (Add_variable name) = ''trick.var_add(\"'' @ cstr name @ ''\")''"
| "template lf (Add_variable_with_units name units) =
     ''trick.var_add(\"'' @ cstr name @ ''\", \"'' @ cstr units @ ''\")''"
| "template lf (Remove_variable name) = ''trick.var_remove(\"'' @ cstr name @ ''\")''"
| "template lf Clear = ''trick.var_clear()''"
| "template lf (Set_cycle period) = ''trick.var_cycle('' @ cstr (lf period) @ '')''"
| "template lf (Set_copy_mode mode) = ''trick.var_set_copy_mode('' @ fmt_i mode @ '')''"
| "template lf Poll = ''trick.var_send()''"
| "template lf Run = ''trick.exec_run()''"
| "template lf Freeze = ''trick.exec_freeze()''"
| "template lf (Set_validate_addresses validate) =
     ''trick.var_validate_address('' @ (if 0 < sint validate then ''True'' else ''False'') @ '')''"
| "template lf (Set_real_time enabled) =
     ''trick.real_time_'' @ (if 0 < sint enabled then ''enable'' else ''disable'') @ ''()''"
| "template lf (Set_debug_level level) = ''trick.var_debug('' @ fmt_i level @ '')''"
| "template lf (Set_client_tag tag) = ''trick.var_set_client_tag(\"'' @ cstr tag @ ''\")''"

text \<open>
  The command line the code assembles: the template, but with the number of
  \<open>set_copy_mode\<close> cut to the 3 bytes, and that of \<open>set_cycle\<close> to the 127 bytes,
  that their scratch arrays hold.
\<close>

fun assembled :: "('d \<Rightarrow> string) \<Rightarrow> 'd command \<Rightarrow> string" where
  "assembled lf (Set_cycle period) = ''trick.var_cycle('' @ take 127 (cstr (lf period)) @ '')''"
| "assembled lf (Set_copy_mode mode) = ''trick.var_set_copy_mode('' @ take 3 (fmt_i mode) @ '')''"
| "assembled lf c = template lf c"

section \<open>Concrete sockets\<close>

text \<open>
  The rendering of the one period 0.1, under the C locale and under a locale whose
  decimal point is a comma; a stack full of one byte; sockets on which every send is
  taken whole, on which every send fails, and on which the sends are taken until \<open>n\<close>
  system calls have been made; a socket with pending bytes to read.
\<close>

definition fixed_lf :: "unit \<Rightarrow> string" where
  "fixed_lf p = ''0.100000''"


definition stack0 :: "nat \<Rightarrow> char" where
  "stack0 = (\<lambda>i. CHR ''#'')"

definition accepting :: transport where
  "accepting = \<lparr>trace = [], send_returns = (\<lambda>tr b. Some (length b)),
                 arriving = (\<lambda>tr. Orderly_shutdown)\<rparr>"

definition refusing :: transport where
  "refusing = \<lparr>trace = [], send_returns = (\<lambda>tr b. None),
                arriving = (\<lambda>tr. Orderly_shutdown)\<rparr>"

definition hangup_after :: "nat \<Rightarrow> transport" where
  "hangup_after n =
     \<lparr>trace = [],
      send_returns = (\<lambda>tr b. if length tr < n then Some (length b) else None),
      arriving = (\<lambda>tr. Orderly_shutdown)\<rparr>"

definition delivering :: "char \<Rightarrow> bytes \<Rightarrow> transport" where
  "delivering c cs = \<lparr>trace = [], send_returns = (\<lambda>tr b. Some (length b)),
                       arriving = (\<lambda>tr. Data c cs)\<rparr>"

section \<open>Facts about C strings\<close>

lemma cstr_no_NUL: "NUL \<notin> set (cstr b)"
  unfolding cstr_def by (auto dest: set_takeWhileD)

lemma cstr_append_NUL: "cstr (xs @ NUL # ys) = cstr xs"
  unfolding cstr_def by (simp add: takeWhile_tail)

lemma cstr_idem: "cstr (cstr b) = cstr b"
  unfolding cstr_def by simp

lemma cstr_append_cstr: "cstr (cstr a @ b) = cstr a @ cstr b"
  unfolding cstr_def by (rule takeWhile_append2) (auto dest: set_takeWhileD)

lemma cstr_take: "cstr (take n b) = take n (cstr b)"
  unfolding cstr_def
proof (induction b arbitrary: n)
  case Nil
  show ?case by simp
next
  case (Cons c b)
  then show ?case by (cases n) auto
qed

lemma cstr_without_NUL: "NUL \<notin> set s \<Longrightarrow> cstr s = s"
  unfolding cstr_def by auto

lemma take_strlen: "take (strlen b) b = cstr b"
  unfolding strlen_def cstr_def by (rule takeWhile_eq_take [symmetric])

lemma length_cstr: "length (cstr b) = strlen b"
  by (simp add: strlen_def)

lemma strlen_cstr: "strlen (cstr b) = strlen b"
  by (simp add: strlen_def cstr_idem)

lemma size_sub_le: "b \<le> a \<Longrightarrow> size_sub a b = a - b"
  by (simp add: size_sub_def)

lemma cstr_strncpy: "strlen src < n \<Longrightarrow> cstr (strncpy dst src n) = cstr src"
proof -
  assume a: "strlen src < n"
  then obtain m where m: "n - strlen src = Suc m"
    by (metis Suc_diff_Suc)
  have "take n (cstr src @ replicate n NUL) = cstr src @ NUL # replicate m NUL"
    using a m by (simp add: strlen_def)
  then show ?thesis
    by (simp add: strncpy_def cstr_append_NUL cstr_idem)
qed

lemma strlen_strncpy: "strlen src < n \<Longrightarrow> strlen (strncpy dst src n) = strlen src"
  by (simp add: strlen_def [of "strncpy dst src n"] cstr_strncpy) (simp add: strlen_def)

lemma cstr_strncat: "cstr (strncat dst src n) = cstr dst @ take n (cstr src)"
proof -
  have "cstr ((cstr dst @ take n (cstr src))
          @ NUL # drop (strlen dst + length (take n (cstr src) @ [NUL])) dst)
        = cstr (cstr dst @ take n (cstr src))"
    by (rule cstr_append_NUL)
  then show ?thesis
    by (simp add: strncat_def Let_def take_strlen cstr_append_cstr cstr_take cstr_idem)
qed

lemma strlen_strncat: "strlen (strncat dst src n) = strlen dst + min n (strlen src)"
  by (simp add: strlen_def cstr_strncat min.commute)

lemma cstr_snprintf: "0 < n \<Longrightarrow> cstr (snprintf dst n s) = take (n - 1) (cstr s)"
  by (simp add: snprintf_def Let_def cstr_append_NUL cstr_take)

lemma strlen_snprintf: "0 < n \<Longrightarrow> strlen (snprintf dst n s) = min (n - 1) (strlen s)"
  by (simp add: strlen_def cstr_snprintf min.commute)

text \<open>Within these bounds the routines write inside the array they are given.\<close>

lemma strlen_le_length: "strlen b \<le> length b"
  by (simp add: strlen_def cstr_def length_takeWhile_le)

lemma length_strncpy: "n \<le> length dst \<Longrightarrow> length (strncpy dst src n) = length dst"
  by (simp add: strncpy_def)

lemma length_strncat:
  assumes "strlen dst + min n (strlen src) < length dst"
  shows "length (strncat dst src n) = length dst"
  using assms strlen_le_length [of dst]
  by (simp add: strncat_def Let_def length_cstr min.commute)

text \<open>The literals of the library hold no NUL.\<close>

lemma cstr_ascii: "cstr ''trick.var_ascii()'' = ''trick.var_ascii()''"
  by (simp add: cstr_def NUL_def)

lemma strlen_ascii: "strlen ''trick.var_ascii()'' = 17"
  by (simp add: strlen_def cstr_ascii)

lemma cstr_binary: "cstr ''trick.var_binary()'' = ''trick.var_binary()''"
  by (simp add: cstr_def NUL_def)

lemma strlen_binary: "strlen ''trick.var_binary()'' = 18"
  by (simp add: strlen_def cstr_binary)

lemma cstr_binary_nonames: "cstr ''trick.var_binary_nonames()'' = ''trick.var_binary_nonames()''"
  by (simp add: cstr_def NUL_def)

lemma strlen_binary_nonames: "strlen ''trick.var_binary_nonames()'' = 26"
  by (simp add: strlen_def cstr_binary_nonames)

lemma cstr_sync: "cstr ''trick.var_sync(1)'' = ''trick.var_sync(1)''"
  by (simp add: cstr_def NUL_def)

lemma strlen_sync: "strlen ''trick.var_sync(1)'' = 17"
  by (simp add: strlen_def cstr_sync)

lemma cstr_pause: "cstr ''trick.var_pause()'' = ''trick.var_pause()''"
  by (simp add: cstr_def NUL_def)

lemma strlen_pause: "strlen ''trick.var_pause()'' = 17"
  by (simp add: strlen_def cstr_pause)

lemma cstr_unpause: "cstr ''trick.var_unpause()'' = ''trick.var_unpause()''"
  by (simp add: cstr_def NUL_def)

lemma strlen_unpause: "strlen ''trick.var_unpause()'' = 19"
  by (simp add: strlen_def cstr_unpause)

lemma cstr_add: "cstr ''trick.var_add(\"'' = ''trick.var_add(\"''"
  by (simp add: cstr_def NUL_def)

lemma strlen_add: "strlen ''trick.var_add(\"'' = 15"
  by (simp add: strlen_def cstr_add)

lemma cstr_quote_close: "cstr ''\")'' = ''\")''"
  by (simp add: cstr_def NUL_def)

lemma strlen_quote_close: "strlen ''\")'' = 2"
  by (simp add: strlen_def cstr_quote_close)

lemma cstr_sep: "cstr ''\", \"'' = ''\", \"''"
  by (simp add: cstr_def NUL_def)

lemma strlen_sep: "strlen ''\", \"'' = 4"
  by (simp add: strlen_def cstr_sep)

lemma cstr_remove: "cstr ''trick.var_remove(\"'' = ''trick.var_remove(\"''"
  by (simp add: cstr_def NUL_def)

lemma strlen_remove: "strlen ''trick.var_remove(\"'' = 18"
  by (simp add: strlen_def cstr_remove)

lemma cstr_clear: "cstr ''trick.var_clear()'' = ''trick.var_clear()''"
  by (simp add: cstr_def NUL_def)

lemma strlen_clear: "strlen ''trick.var_clear()'' = 17"
  by (simp add: strlen_def cstr_clear)

lemma cstr_cycle: "cstr ''trick.var_cycle('' = ''trick.var_cycle(''"
  by (simp add: cstr_def NUL_def)

lemma strlen_cycle: "strlen ''trick.var_cycle('' = 16"
  by (simp add: strlen_def cstr_cycle)

lemma cstr_paren: "cstr '')'' = '')''"
  by (simp add: cstr_def NUL_def)

lemma strlen_paren: "strlen '')'' = 1"
  by (simp add: strlen_def cstr_paren)

lemma cstr_copy_mode: "cstr ''trick.var_set_copy_mode('' = ''trick.var_set_copy_mode(''"
  by (simp add: cstr_def NUL_def)

lemma strlen_copy_mode: "strlen ''trick.var_set_copy_mode('' = 24"
  by (simp add: strlen_def cstr_copy_mode)

lemma cstr_send: "cstr ''trick.var_send()'' = ''trick.var_send()''"
  by (simp add: cstr_def NUL_def)

lemma strlen_send: "strlen ''trick.var_send()'' = 16"
  by (simp add: strlen_def cstr_send)

lemma cstr_run: "cstr ''trick.exec_run()'' = ''trick.exec_run()''"
  by (simp add: cstr_def NUL_def)

lemma strlen_run: "strlen ''trick.exec_run()'' = 16"
  by (simp add: strlen_def cstr_run)

lemma cstr_freeze: "cstr ''trick.exec_freeze()'' = ''trick.exec_freeze()''"
  by (simp add: cstr_def NUL_def)

lemma strlen_freeze: "strlen ''trick.exec_freeze()'' = 19"
  by (simp add: strlen_def cstr_freeze)

lemma cstr_exit: "cstr ''trick.var_exit()'' = ''trick.var_exit()''"
  by (simp add: cstr_def NUL_def)

lemma strlen_exit: "strlen ''trick.var_exit()'' = 16"
  by (simp add: strlen_def cstr_exit)

lemma cstr_validate: "cstr ''trick.var_validate_address('' = ''trick.var_validate_address(''"
  by (simp add: cstr_def NUL_def)

lemma strlen_validate: "strlen ''trick.var_validate_address('' = 27"
  by (simp add: strlen_def cstr_validate)

lemma cstr_True: "cstr ''True'' = ''True''"
  by (simp add: cstr_def NUL_def)

lemma strlen_True: "strlen ''True'' = 4"
  by (simp add: strlen_def cstr_True)

lemma cstr_False: "cstr ''False'' = ''False''"
  by (simp add: cstr_def NUL_def)

lemma strlen_False: "strlen ''False'' = 5"
  by (simp add: strlen_def cstr_False)

lemma cstr_real_time: "cstr ''trick.real_time_'' = ''trick.real_time_''"
  by (simp add: cstr_def NUL_def)

lemma strlen_real_time: "strlen ''trick.real_time_'' = 16"
  by (simp add: strlen_def cstr_real_time)

lemma cstr_enable: "cstr ''enable'' = ''enable''"
  by (simp add: cstr_def NUL_def)

lemma strlen_enable: "strlen ''enable'' = 6"
  by (simp add: strlen_def cstr_enable)

lemma cstr_disable: "cstr ''disable'' = ''disable''"
  by (simp add: cstr_def NUL_def)

lemma strlen_disable: "strlen ''disable'' = 7"
  by (simp add: strlen_def cstr_disable)

lemma cstr_parens: "cstr ''()'' = ''()''"
  by (simp add: cstr_def NUL_def)

lemma strlen_parens: "strlen ''()'' = 2"
  by (simp add: strlen_def cstr_parens)

lemma cstr_debug: "cstr ''trick.var_debug('' = ''trick.var_debug(''"
  by (simp add: cstr_def NUL_def)

lemma strlen_debug: "strlen ''trick.var_debug('' = 16"
  by (simp add: strlen_def cstr_debug)

lemma cstr_client_tag: "cstr ''trick.var_set_client_tag(\"'' = ''trick.var_set_client_tag(\"''"
  by (simp add: cstr_def NUL_def)

lemma strlen_client_tag: "strlen ''trick.var_set_client_tag(\"'' = 26"
  by (simp add: strlen_def cstr_client_tag)

lemma cstr_newline: "cstr ''\<newline>'' = ''\<newline>''"
  by (simp add: cstr_def NUL_def)

lemma strlen_newline: "strlen ''\<newline>'' = 1"
  by (simp add: strlen_def cstr_newline)

lemmas literals =
  cstr_ascii strlen_ascii cstr_binary strlen_binary
  cstr_binary_nonames strlen_binary_nonames cstr_sync strlen_sync
  cstr_pause strlen_pause cstr_unpause strlen_unpause
  cstr_add strlen_add cstr_quote_close strlen_quote_close
  cstr_sep strlen_sep cstr_remove strlen_remove
  cstr_clear strlen_clear cstr_cycle strlen_cycle
  cstr_paren strlen_paren cstr_copy_mode strlen_copy_mode
  cstr_send strlen_send cstr_run strlen_run
  cstr_freeze strlen_freeze cstr_exit strlen_exit
  cstr_validate strlen_validate cstr_True strlen_True
  cstr_False strlen_False cstr_real_time strlen_real_time
  cstr_enable strlen_enable cstr_disable strlen_disable
  cstr_parens strlen_parens cstr_debug strlen_debug
  cstr_client_tag strlen_client_tag cstr_newline strlen_newline

lemmas string_ops =
  strlen_strncpy strlen_strncat strlen_snprintf cstr_strncpy cstr_strncat cstr_snprintf
  size_sub_le length_cstr strlen_cstr cstr_idem

section \<open>What each function hands to the socket\<close>

lemma send_strlen: "send t buf (strlen buf) = transmit t (cstr buf)"
proof -
  have "take (length (cstr buf)) buf = cstr buf"
    using take_strlen [of buf] by (simp add: strlen_def)
  then show ?thesis
    by (simp add: send_def transmit_def strlen_def)
qed

lemma send_command_eq:
  "send_command_to_variable_server stk t command =
     (if 510 < strlen command then (-1, t) else transmit t (cstr command @ ''\<newline>''))"
proof (cases "510 < strlen command")
  case True
  then show ?thesis
    by (simp add: send_command_to_variable_server_def)
next
  case False
  then show ?thesis
    by (simp add: send_command_to_variable_server_def Let_def send_strlen string_ops
      cstr_newline strlen_newline)
qed

lemma set_ascii_eq: "set_ascii stk t = report (transmit t ''trick.var_ascii()\<newline>'')"
  by (simp add: set_ascii_def send_command_eq report_def cstr_ascii strlen_ascii)

lemma set_binary_eq: "set_binary stk t = report (transmit t ''trick.var_binary()\<newline>'')"
  by (simp add: set_binary_def send_command_eq report_def cstr_binary strlen_binary)

lemma set_binary_no_names_eq: "set_binary_no_names stk t = report (transmit t ''trick.var_binary_nonames()\<newline>'')"
  by (simp add: set_binary_no_names_def send_command_eq report_def cstr_binary_nonames strlen_binary_nonames)

lemma set_sync_eq: "set_sync stk t = report (transmit t ''trick.var_sync(1)\<newline>'')"
  by (simp add: set_sync_def send_command_eq report_def cstr_sync strlen_sync)

lemma pause_eq: "pause stk t = report (transmit t ''trick.var_pause()\<newline>'')"
  by (simp add: pause_def send_command_eq report_def cstr_pause strlen_pause)

lemma unpause_eq: "unpause stk t = report (transmit t ''trick.var_unpause()\<newline>'')"
  by (simp add: unpause_def send_command_eq report_def cstr_unpause strlen_unpause)

lemma clear_eq: "clear stk t = report (transmit t ''trick.var_clear()\<newline>'')"
  by (simp add: clear_def send_command_eq report_def cstr_clear strlen_clear)

lemma poll_eq: "poll stk t = report (transmit t ''trick.var_send()\<newline>'')"
  by (simp add: poll_def send_command_eq report_def cstr_send strlen_send)

lemma run_eq: "run stk t = report (transmit t ''trick.exec_run()\<newline>'')"
  by (simp add: run_def send_command_eq report_def cstr_run strlen_run)

lemma freeze_eq: "freeze stk t = report (transmit t ''trick.exec_freeze()\<newline>'')"
  by (simp add: freeze_def send_command_eq report_def cstr_freeze strlen_freeze)

lemma add_variable_to_server_eq:
  "add_variable_to_server stk t variable_name =
     (if 510 < 17 + strlen variable_name then (-1, t)
      else report (transmit t (''trick.var_add(\"'' @ cstr variable_name @ ''\")\<newline>'')))"
proof (cases "494 < strlen variable_name")
  case True
  then show ?thesis
    by (simp add: add_variable_to_server_def Let_def literals)
next
  case False
  then show ?thesis
    by (simp add: add_variable_to_server_def Let_def send_command_eq report_def string_ops literals)
qed

lemma remove_variable_from_server_eq:
  "remove_variable_from_server stk t variable_name =
     (if 510 < 20 + strlen variable_name then (-1, t)
      else report (transmit t (''trick.var_remove(\"'' @ cstr variable_name @ ''\")\<newline>'')))"
proof (cases "491 < strlen variable_name")
  case True
  then show ?thesis
    by (simp add: remove_variable_from_server_def Let_def literals)
next
  case False
  then show ?thesis
    by (simp add: remove_variable_from_server_def Let_def send_command_eq report_def string_ops literals)
qed

lemma set_client_tag_eq:
  "set_client_tag stk t tag =
     (if 510 < 28 + strlen tag then (-1, t)
      else report (transmit t (''trick.var_set_client_tag(\"'' @ cstr tag @ ''\")\<newline>'')))"
proof (cases "483 < strlen tag")
  case True
  then show ?thesis
    by (simp add: set_client_tag_def Let_def literals)
next
  case False
  then show ?thesis
    by (simp add: set_client_tag_def Let_def send_command_eq report_def string_ops literals)
qed

lemma add_variable_to_sever_with_units_eq:
  "add_variable_to_sever_with_units stk t variable_name units =
     (if 510 < 21 + strlen variable_name + strlen units then (-1, t)
      else report (transmit t (''trick.var_add(\"'' @ cstr variable_name @ ''\", \"''
                                 @ cstr units @ ''\")\<newline>'')))"
proof (cases "490 < strlen variable_name + strlen units")
  case True
  then show ?thesis
    by (simp add: add_variable_to_sever_with_units_def Let_def literals)
next
  case False
  define c1 where "c1 = strncpy (auto_array stk 0 512) ''trick.var_add(\"'' 512"
  define c2 where "c2 = strncat c1 variable_name (size_sub (size_sub 512 (strlen c1)) 1)"
  define c3 where "c3 = strncat c2 ''\", \"'' (size_sub (size_sub 512 (strlen c2)) 1)"
  define c4 where "c4 = strncat c3 units (size_sub (size_sub 512 (strlen c3)) 1)"
  define c5 where "c5 = strncat c4 ''\")'' (size_sub (size_sub 512 (strlen c4)) 1)"
  have l1: "cstr c1 = ''trick.var_add(\"''" and n1: "strlen c1 = 15"
    by (simp_all add: c1_def string_ops literals)
  have l2: "cstr c2 = ''trick.var_add(\"'' @ cstr variable_name"
    and n2: "strlen c2 = 15 + strlen variable_name"
    using False by (simp_all add: c2_def string_ops l1 n1)
  have l3: "cstr c3 = ''trick.var_add(\"'' @ cstr variable_name @ ''\", \"''"
    and n3: "strlen c3 = 19 + strlen variable_name"
    using False by (simp_all add: c3_def string_ops l2 n2 literals)
  have l4: "cstr c4 = ''trick.var_add(\"'' @ cstr variable_name @ ''\", \"'' @ cstr units"
    and n4: "strlen c4 = 19 + strlen variable_name + strlen units"
    using False by (simp_all add: c4_def string_ops l3 n3)
  have l5: "cstr c5 = ''trick.var_add(\"'' @ cstr variable_name @ ''\", \"'' @ cstr units
                        @ ''\")''"
    and n5: "strlen c5 = 21 + strlen variable_name + strlen units"
    using False by (simp_all add: c5_def string_ops l4 n4 literals)
  have "\<not> 512 < strlen ''trick.var_add(\"'' + strlen variable_name + strlen ''\", \"''
                 + strlen units + strlen ''\")'' + 1"
    using False by (simp add: literals)
  then have "add_variable_to_sever_with_units stk t variable_name units =
      (case send_command_to_variable_server (callee stk 512) t c5 of
         (r, t') \<Rightarrow> if r < 0 then (-1, t') else (0, t'))"
    unfolding add_variable_to_sever_with_units_def Let_def c5_def c4_def c3_def c2_def c1_def
    by (simp only: if_False)
  then show ?thesis
    by (simp add: send_command_eq report_def l5 n5)
qed

lemma set_cycle_eq:
  "set_cycle lf stk t period =
     report (transmit t (''trick.var_cycle('' @ take 127 (cstr (lf period)) @ '')\<newline>''))"
  by (simp add: set_cycle_def Let_def send_command_eq report_def string_ops literals)

text \<open>The digits of \<open>%i\<close>: no NUL among them, and at most eleven bytes for 32 bits.\<close>

lemma digit_not_NUL: "d < 10 \<Longrightarrow> ''0123456789'' ! d \<noteq> NUL"
proof -
  assume "d < 10"
  then have "d \<in> {0, 1, 2, 3, 4, 5, 6, 7, 8, 9}"
    by auto
  then show ?thesis
    by (auto simp: NUL_def)
qed

lemma dec_no_NUL: "NUL \<notin> set (dec n)"
proof (induction n rule: dec.induct)
  case (1 n)
  show ?case
  proof (cases "n < 10")
    case True
    then show ?thesis
      using digit_not_NUL [of n] by (simp add: dec.simps [of n])
  next
    case False
    then show ?thesis
      using 1 digit_not_NUL [of "n mod 10"] by (simp add: dec.simps [of n])
  qed
qed

lemma length_dec: "n < 10 ^ Suc k \<Longrightarrow> length (dec n) \<le> Suc k"
proof (induction k arbitrary: n)
  case 0
  then show ?case
    by (simp add: dec.simps [of n])
next
  case (Suc k)
  show ?case
  proof (cases "n < 10")
    case True
    then show ?thesis
      by (simp add: dec.simps [of n])
  next
    case False
    have "n div 10 < 10 ^ Suc k"
      using Suc.prems by (simp add: less_mult_imp_div_less mult.commute)
    then have "length (dec (n div 10)) \<le> Suc k"
      by (rule Suc.IH)
    then show ?thesis
      using False by (simp add: dec.simps [of n])
  qed
qed

lemma cstr_fmt_i: "cstr (fmt_i v) = fmt_i v"
proof (rule cstr_without_NUL)
  have "CHR ''-'' \<noteq> NUL"
    by (simp add: NUL_def)
  then show "NUL \<notin> set (fmt_i v)"
    using dec_no_NUL by (auto simp: fmt_i_def)
qed

lemma sint_32_bounds: "- 2147483648 \<le> sint (v :: 32 word) \<and> sint v \<le> 2147483647"
  using sint_range_size [of v] by (simp add: word_size)

lemma length_fmt_i: "length (fmt_i v) \<le> 11"
proof -
  have a: "nat (- sint v) < 10 ^ Suc 9" and b: "nat (sint v) < 10 ^ Suc 9"
    using sint_32_bounds [of v] by auto
  show ?thesis
    using length_dec [OF a] length_dec [OF b] by (simp add: fmt_i_def)
qed

lemma strlen_fmt_i: "strlen (fmt_i v) \<le> 11"
  using length_fmt_i [of v] by (simp add: strlen_def cstr_fmt_i)

lemma set_copy_mode_eq:
  "set_copy_mode stk t mode =
     report (transmit t (''trick.var_set_copy_mode('' @ take 3 (fmt_i mode) @ '')\<newline>''))"
  by (simp add: set_copy_mode_def Let_def send_command_eq report_def string_ops literals
    cstr_fmt_i)

lemma set_debug_level_eq:
  "set_debug_level stk t level =
     report (transmit t (''trick.var_debug('' @ fmt_i level @ '')\<newline>''))"
  using strlen_fmt_i [of level] length_fmt_i [of level]
  by (simp add: set_debug_level_def Let_def send_command_eq report_def string_ops literals
    cstr_fmt_i)

lemma set_validate_addresses_eq:
  "set_validate_addresses stk t validate =
     report (transmit t (''trick.var_validate_address(''
                           @ (if 0 < sint validate then ''True'' else ''False'')
                           @ '')\<newline>''))"
  by (simp add: set_validate_addresses_def Let_def send_command_eq report_def string_ops
    literals)

lemma set_real_time_eq:
  "set_real_time stk t enabled =
     report (transmit t (''trick.real_time_''
                           @ (if 0 < sint enabled then ''enable'' else ''disable'')
                           @ ''()\<newline>''))"
  by (simp add: set_real_time_def Let_def send_command_eq report_def string_ops literals)

section \<open>The commands, uniformly\<close>

lemma snd_transmit: "snd (transmit t line) = t\<lparr>trace := trace t @ [Send line]\<rparr>"
  by (simp add: transmit_def send_def)

lemma snd_report: "snd (report x) = snd x"
  by (simp add: report_def split: prod.splits)

lemma writes_none: "writes t t = []"
  by (simp add: writes_def)

lemma writes_grown: "trace t' = trace t @ cs \<Longrightarrow> writes t t' = sent cs"
  by (simp add: writes_def)

lemma perform_eq:
  "perform lf stk t c =
     (if 510 < length (assembled lf c) then (-1, t)
      else report (transmit t (assembled lf c @ ''\<newline>'')))"
proof (cases c)
  case (Add_variable name)
  then show ?thesis
    by (simp add: add_variable_to_server_eq length_cstr)
next
  case (Add_variable_with_units name units)
  then show ?thesis
    by (simp add: add_variable_to_sever_with_units_eq length_cstr)
next
  case (Remove_variable name)
  then show ?thesis
    by (simp add: remove_variable_from_server_eq length_cstr)
next
  case (Set_client_tag tag)
  then show ?thesis
    by (simp add: set_client_tag_eq length_cstr)
next
  case (Set_cycle period)
  then show ?thesis
    by (simp add: set_cycle_eq)
next
  case (Set_copy_mode mode)
  then show ?thesis
    by (simp add: set_copy_mode_eq)
next
  case (Set_debug_level level)
  then show ?thesis
    using length_fmt_i [of level] by (simp add: set_debug_level_eq)
next
  case (Set_validate_addresses validate)
  then show ?thesis
    by (simp add: set_validate_addresses_eq)
next
  case (Set_real_time enabled)
  then show ?thesis
    by (simp add: set_real_time_eq)
qed (simp_all add: set_ascii_eq set_binary_eq set_binary_no_names_eq set_sync_eq pause_eq
  unpause_eq clear_eq poll_eq run_eq freeze_eq)

lemma trace_perform:
  "trace (snd (perform lf stk t c)) =
     (if 510 < length (assembled lf c) then trace t
      else trace t @ [Send (assembled lf c @ ''\<newline>'')])"
  by (simp add: perform_eq snd_report snd_transmit)


section \<open>The raw send\<close>

lemma strlen_replicate_a: "strlen (replicate n CHR ''a'') = n"
  by (simp add: strlen_def cstr_def NUL_def)

text \<open>
  C3, as stated: the raw send fails locally exactly when the length of the text plus 1
  exceeds 512, so a text of 511 bytes is written. It is not: the guard of the code
  counts the newline and the terminator, and a text of 511 bytes is refused with no
  system call, though 511 + 1 does not exceed 512.
\<close>

theorem raw_send_511_refused:
  "\<not> 512 < strlen (replicate 511 CHR ''a'') + 1
   \<and> send_command_to_variable_server stack0 accepting (replicate 511 CHR ''a'') = (-1, accepting)
   \<and> writes accepting
        (snd (send_command_to_variable_server stack0 accepting (replicate 511 CHR ''a''))) = []"
  by (simp add: send_command_eq strlen_replicate_a writes_none)

text \<open>
  C3, amended: the raw send fails locally, with no system call and the socket
  untouched, exactly when the length of the text plus 2 exceeds 512 (the newline and the
  terminator both need room in the array of 512 bytes): texts of up to 510 bytes are
  written, texts of 511 bytes or more are refused. When the write is attempted, the call
  returns what \<open>send\<close> returns: the number of bytes written, or -1.
\<close>

theorem raw_send_guard:
  "send_command_to_variable_server stk t text =
     (if 512 < strlen text + 2 then (-1, t)
      else (case send_returns t (trace t) (cstr text @ ''\<newline>'') of
              None \<Rightarrow> -1
            | Some k \<Rightarrow> int (min k (strlen text + 1)),
            t\<lparr>trace := trace t @ [Send (cstr text @ ''\<newline>'')]\<rparr>))"
proof (cases "512 < strlen text + 2")
  case True
  then have "510 < strlen text"
    by simp
  then have "send_command_to_variable_server stk t text = (-1, t)"
    by (simp add: send_command_eq)
  with True show ?thesis
    by simp
next
  case False
  then have "\<not> 510 < strlen text"
    by simp
  then have a: "send_command_to_variable_server stk t text
      = transmit t (cstr text @ ''\<newline>'')"
    by (simp add: send_command_eq)
  have b: "transmit t line =
      (case send_returns t (trace t) line of None \<Rightarrow> -1 | Some k \<Rightarrow> int (min k (length line)),
       t\<lparr>trace := trace t @ [Send line]\<rparr>)" for line
    by (simp add: transmit_def send_def)
  show ?thesis
    using False by (simp add: a b length_cstr split: option.split)
qed

theorem raw_send_guard_witness:
  "send_command_to_variable_server stack0 accepting (replicate 510 CHR ''a'')
     = (511, accepting\<lparr>trace := [Send (replicate 510 CHR ''a'' @ ''\<newline>'')]\<rparr>)
   \<and> send_command_to_variable_server stack0 refusing (replicate 510 CHR ''a'')
     = (-1, refusing\<lparr>trace := [Send (replicate 510 CHR ''a'' @ ''\<newline>'')]\<rparr>)
   \<and> send_command_to_variable_server stack0 accepting (replicate 511 CHR ''a'')
     = (-1, accepting)"
proof -
  have c: "cstr (replicate 510 CHR ''a'') = replicate 510 CHR ''a''"
    by (simp add: cstr_def NUL_def)
  show ?thesis
    using raw_send_guard [of stack0 accepting "replicate 510 CHR ''a''"]
      raw_send_guard [of stack0 refusing "replicate 510 CHR ''a''"]
      raw_send_guard [of stack0 accepting "replicate 511 CHR ''a''"]
    by (simp add: strlen_replicate_a c accepting_def refusing_def)
qed

text \<open>
  C5: for every text it accepts, the raw send appends exactly one newline to the text,
  whatever the text ends with, and hands the whole result to a single \<open>send\<close>. A text
  that ends with a newline goes out with two.
\<close>

theorem raw_send_one_newline:
  assumes "\<not> 512 < strlen text + 2"
  shows "trace (snd (send_command_to_variable_server stk t text))
           = trace t @ [Send (cstr text @ ''\<newline>'')]
         \<and> writes t (snd (send_command_to_variable_server stk t text))
           = [cstr text @ ''\<newline>'']"
proof -
  have "trace (snd (send_command_to_variable_server stk t text))
          = trace t @ [Send (cstr text @ ''\<newline>'')]"
    using assms by (simp add: send_command_eq snd_transmit)
  then show ?thesis
    by (simp add: writes_grown)
qed

theorem raw_send_one_newline_witness:
  "\<not> 512 < strlen ''trick.var_send()\<newline>'' + 2
   \<and> trace (snd (send_command_to_variable_server stack0 accepting ''trick.var_send()\<newline>''))
       = trace accepting @ [Send ''trick.var_send()\<newline>\<newline>'']
   \<and> writes accepting
        (snd (send_command_to_variable_server stack0 accepting ''trick.var_send()\<newline>''))
       = [''trick.var_send()\<newline>\<newline>'']"
proof -
  have c: "cstr ''trick.var_send()\<newline>'' = ''trick.var_send()\<newline>''"
    by (simp add: cstr_def NUL_def)
  have h: "\<not> 512 < strlen ''trick.var_send()\<newline>'' + 2"
    by (simp add: strlen_def c)
  show ?thesis
    using h raw_send_one_newline [OF h, of stack0 accepting] by (simp add: c)
qed

section \<open>The command functions\<close>

text \<open>
  C6: \<open>add_variable_to_server\<close> with the name \<open>dyn.baseball.pos[0]\<close> makes exactly one
  transport write, of \<open>trick.var_add("dyn.baseball.pos[0]")\<close> and a single newline.
\<close>

theorem add_variable_baseball:
  "trace (snd (add_variable_to_server stk t ''dyn.baseball.pos[0]''))
     = trace t @ [Send ''trick.var_add(\"dyn.baseball.pos[0]\")\<newline>'']
   \<and> writes t (snd (add_variable_to_server stk t ''dyn.baseball.pos[0]''))
     = [''trick.var_add(\"dyn.baseball.pos[0]\")\<newline>'']"
proof -
  have c: "cstr ''dyn.baseball.pos[0]'' = ''dyn.baseball.pos[0]''"
    by (simp add: cstr_def NUL_def)
  have "trace (snd (add_variable_to_server stk t ''dyn.baseball.pos[0]''))
          = trace t @ [Send ''trick.var_add(\"dyn.baseball.pos[0]\")\<newline>'']"
    by (simp add: add_variable_to_server_eq strlen_def c snd_report snd_transmit)
  then show ?thesis
    by (simp add: writes_grown)
qed

text \<open>
  C10: the flag functions read their flag by its sign. \<open>set_validate_addresses\<close> sends
  \<open>True\<close> exactly when \<open>validate > 0\<close> and \<open>False\<close> for every other value, the
  negative ones too; \<open>set_real_time\<close> sends \<open>enable\<close> exactly when \<open>enabled > 0\<close> and
  \<open>disable\<close> otherwise.
\<close>

theorem flags_read_by_sign:
  "writes t (snd (set_validate_addresses stk t validate))
     = [if 0 < sint validate then ''trick.var_validate_address(True)\<newline>''
        else ''trick.var_validate_address(False)\<newline>'']
   \<and> writes t (snd (set_real_time stk t enabled))
     = [if 0 < sint enabled then ''trick.real_time_enable()\<newline>''
        else ''trick.real_time_disable()\<newline>'']"
proof -
  have "trace (snd (set_validate_addresses stk t validate))
          = trace t @ [Send (if 0 < sint validate then ''trick.var_validate_address(True)\<newline>''
                             else ''trick.var_validate_address(False)\<newline>'')]"
    by (simp add: set_validate_addresses_eq snd_report snd_transmit)
  moreover have "trace (snd (set_real_time stk t enabled))
          = trace t @ [Send (if 0 < sint enabled then ''trick.real_time_enable()\<newline>''
                             else ''trick.real_time_disable()\<newline>'')]"
    by (simp add: set_real_time_eq snd_report snd_transmit)
  ultimately show ?thesis
    by (simp add: writes_grown)
qed

theorem flags_read_by_sign_witness:
  "writes accepting (snd (set_validate_addresses stack0 accepting 2))
     = [''trick.var_validate_address(True)\<newline>'']
   \<and> writes accepting (snd (set_validate_addresses stack0 accepting (- 1)))
     = [''trick.var_validate_address(False)\<newline>'']
   \<and> writes accepting (snd (set_validate_addresses stack0 accepting 0))
     = [''trick.var_validate_address(False)\<newline>'']
   \<and> writes accepting (snd (set_real_time stack0 accepting 2))
     = [''trick.real_time_enable()\<newline>'']
   \<and> writes accepting (snd (set_real_time stack0 accepting (- 1)))
     = [''trick.real_time_disable()\<newline>'']"
  using flags_read_by_sign [of accepting stack0 2 2]
    flags_read_by_sign [of accepting stack0 "- 1" "- 1"]
    flags_read_by_sign [of accepting stack0 0 0]
  by simp

section \<open>Closing the connection\<close>

lemma exit_sent:
  "send_command_to_variable_server stk t ''trick.var_exit()'' =
     (case send_returns t (trace t) ''trick.var_exit()\<newline>'' of
        None \<Rightarrow> -1
      | Some k \<Rightarrow> int (min k 17),
      t\<lparr>trace := trace t @ [Send ''trick.var_exit()\<newline>'']\<rparr>)"
proof -
  have "length ''trick.var_exit()\<newline>'' = 17"
    by simp
  then show ?thesis
    by (simp add: send_command_eq transmit_def send_def cstr_exit strlen_exit
      del: list.size length_Cons)
qed

lemma close_step:
  "close stk t =
     (case send_returns t (trace t) ''trick.var_exit()\<newline>'' of
        None \<Rightarrow> Some (-1, t\<lparr>trace := trace t @ [Send ''trick.var_exit()\<newline>'']\<rparr>)
      | Some k \<Rightarrow>
          Option.bind
            (close (callee stk 0) (t\<lparr>trace := trace t @ [Send ''trick.var_exit()\<newline>'']\<rparr>))
            (\<lambda>(_, t''). Some (0, t'')))"
  by (subst close.simps) (simp add: exit_sent split: option.split)

text \<open>
  The body of \<open>close\<close> over any function \<open>f\<close> in the place of the recursive call,
  once the send of the exit command is done.
\<close>

lemma close_body:
  "(case send_command_to_variable_server (callee stk 0) t ''trick.var_exit()'' of
      (r, t') \<Rightarrow>
        if r < 0 then Some (-1, t')
        else Option.bind (f (callee stk 0) t') (\<lambda>(_, t''). Some (0, t''))) = Some y
   \<longleftrightarrow>
   (case send_returns t (trace t) ''trick.var_exit()\<newline>'' of
      None \<Rightarrow> y = (-1, t\<lparr>trace := trace t @ [Send ''trick.var_exit()\<newline>'']\<rparr>)
    | Some k \<Rightarrow>
        (\<exists>y'. f (callee stk 0) (t\<lparr>trace := trace t @ [Send ''trick.var_exit()\<newline>'']\<rparr>)
                = Some y' \<and> y = (0, snd y')))"
  by (auto simp: exit_sent split: option.split Option.bind_splits)

lemma close_returned_after_failure:
  assumes "close stk t = Some y"
  shows "\<exists>tr b. send_returns t tr b = None"
proof (rule close.raw_induct
    [where P = "\<lambda>stk t y. \<exists>tr b. send_returns t tr b = None", OF _ assms])
  fix f :: "(nat \<Rightarrow> char) \<Rightarrow> transport \<Rightarrow> (int \<times> transport) option"
    and stk and t :: transport and y :: "int \<times> transport"
  assume IH: "\<And>stk t y. f stk t = Some y \<Longrightarrow> \<exists>tr b. send_returns t tr b = None"
  assume "(case send_command_to_variable_server (callee stk 0) t ''trick.var_exit()'' of
      (r, t') \<Rightarrow>
        if r < 0 then Some (-1, t')
        else Option.bind (f (callee stk 0) t') (\<lambda>(_, t''). Some (0, t''))) = Some y"
  then have body: "case send_returns t (trace t) ''trick.var_exit()\<newline>'' of
      None \<Rightarrow> y = (-1, t\<lparr>trace := trace t @ [Send ''trick.var_exit()\<newline>'']\<rparr>)
    | Some k \<Rightarrow>
        (\<exists>y'. f (callee stk 0) (t\<lparr>trace := trace t @ [Send ''trick.var_exit()\<newline>'']\<rparr>)
                = Some y' \<and> y = (0, snd y'))"
    by (simp only: close_body)
  show "\<exists>tr b. send_returns t tr b = None"
  proof (cases "send_returns t (trace t) ''trick.var_exit()\<newline>''")
    case None
    then show ?thesis by blast
  next
    case (Some k)
    with body obtain y' where
      "f (callee stk 0) (t\<lparr>trace := trace t @ [Send ''trick.var_exit()\<newline>'']\<rparr>) = Some y'"
      by auto
    from IH [OF this] show ?thesis
      by simp
  qed
qed

lemma close_never_returns:
  assumes "\<forall>tr b. send_returns t tr b \<noteq> None"
  shows "close stk t = None"
proof (cases "close stk t")
  case None
  then show ?thesis .
next
  case (Some y)
  then show ?thesis
    using close_returned_after_failure [of stk t y] assms by blast
qed

lemma close_returned_trace:
  assumes "close stk t = Some y"
  shows "\<exists>n. trace (snd y) = trace t @ replicate (Suc n) (Send ''trick.var_exit()\<newline>'')
             \<and> (send_returns t (trace t) ''trick.var_exit()\<newline>'' \<noteq> None \<longrightarrow> 0 < n)"
proof (rule close.raw_induct
    [where P = "\<lambda>stk t y. \<exists>n. trace (snd y)
                    = trace t @ replicate (Suc n) (Send ''trick.var_exit()\<newline>'')
                  \<and> (send_returns t (trace t) ''trick.var_exit()\<newline>'' \<noteq> None \<longrightarrow> 0 < n)",
     OF _ assms])
  fix f :: "(nat \<Rightarrow> char) \<Rightarrow> transport \<Rightarrow> (int \<times> transport) option"
    and stk and t :: transport and y :: "int \<times> transport"
  let ?t1 = "t\<lparr>trace := trace t @ [Send ''trick.var_exit()\<newline>'']\<rparr>"
  assume IH: "\<And>stk t y. f stk t = Some y \<Longrightarrow>
      \<exists>n. trace (snd y) = trace t @ replicate (Suc n) (Send ''trick.var_exit()\<newline>'')
         \<and> (send_returns t (trace t) ''trick.var_exit()\<newline>'' \<noteq> None \<longrightarrow> 0 < n)"
  assume "(case send_command_to_variable_server (callee stk 0) t ''trick.var_exit()'' of
      (r, t') \<Rightarrow>
        if r < 0 then Some (-1, t')
        else Option.bind (f (callee stk 0) t') (\<lambda>(_, t''). Some (0, t''))) = Some y"
  then have body: "case send_returns t (trace t) ''trick.var_exit()\<newline>'' of
      None \<Rightarrow> y = (-1, ?t1)
    | Some k \<Rightarrow> (\<exists>y'. f (callee stk 0) ?t1 = Some y' \<and> y = (0, snd y'))"
    by (simp only: close_body)
  show "\<exists>n. trace (snd y) = trace t @ replicate (Suc n) (Send ''trick.var_exit()\<newline>'')
           \<and> (send_returns t (trace t) ''trick.var_exit()\<newline>'' \<noteq> None \<longrightarrow> 0 < n)"
  proof (cases "send_returns t (trace t) ''trick.var_exit()\<newline>''")
    case None
    with body have "trace (snd y) = trace t @ replicate (Suc 0) (Send ''trick.var_exit()\<newline>'')"
      by simp
    with None show ?thesis
      by blast
  next
    case (Some k)
    with body obtain y' where y': "f (callee stk 0) ?t1 = Some y'" and s: "y = (0, snd y')"
      by auto
    from IH [OF y'] obtain n where
      "trace (snd y') = trace ?t1 @ replicate (Suc n) (Send ''trick.var_exit()\<newline>'')"
      by blast
    then have "trace (snd y) = trace t @ replicate (Suc (Suc n)) (Send ''trick.var_exit()\<newline>'')"
      using s by simp
    then show ?thesis
      by blast
  qed
qed



lemma bind_zero_twice:
  "Option.bind m
     (\<lambda>y. Option.bind (case y of (_, t'') \<Rightarrow> Some (0 :: int, t'' :: transport))
            (\<lambda>(_, t''). Some (0 :: int, t'')))
   = Option.bind m (\<lambda>(_ :: int, t''). Some (0, t''))"
  by (cases m) (simp_all split: prod.split)

text \<open>
  After a first successful send, the exit command is handed to \<open>send\<close> a second time,
  whether or not the call then returns.
\<close>

lemma close_two_steps:
  assumes "send_returns t (trace t) ''trick.var_exit()\<newline>'' \<noteq> None"
  shows "close stk t =
     (case send_returns t (trace t @ [Send ''trick.var_exit()\<newline>'']) ''trick.var_exit()\<newline>'' of
        None \<Rightarrow>
          Some (0, t\<lparr>trace := trace t @ [Send ''trick.var_exit()\<newline>'',
                                         Send ''trick.var_exit()\<newline>'']\<rparr>)
      | Some k \<Rightarrow>
          Option.bind
            (close (callee (callee stk 0) 0)
               (t\<lparr>trace := trace t @ [Send ''trick.var_exit()\<newline>'',
                                      Send ''trick.var_exit()\<newline>'']\<rparr>))
            (\<lambda>(_, t''). Some (0, t'')))"
proof -
  let ?t1 = "t\<lparr>trace := trace t @ [Send ''trick.var_exit()\<newline>'']\<rparr>"
  have 1: "close stk t = Option.bind (close (callee stk 0) ?t1) (\<lambda>(_, t''). Some (0, t''))"
    using assms by (subst close_step) auto
  have 2: "close (callee stk 0) ?t1 =
     (case send_returns t (trace t @ [Send ''trick.var_exit()\<newline>'']) ''trick.var_exit()\<newline>'' of
        None \<Rightarrow>
          Some (-1, t\<lparr>trace := trace t @ [Send ''trick.var_exit()\<newline>'',
                                          Send ''trick.var_exit()\<newline>'']\<rparr>)
      | Some k \<Rightarrow>
          Option.bind
            (close (callee (callee stk 0) 0)
               (t\<lparr>trace := trace t @ [Send ''trick.var_exit()\<newline>'',
                                      Send ''trick.var_exit()\<newline>'']\<rparr>))
            (\<lambda>(_, t''). Some (0, t'')))"
    by (subst close_step) (simp split: option.split)
  show ?thesis
    unfolding 1 2 by (simp add: bind_zero_twice split: option.split)
qed

text \<open>
  C2, as stated: \<open>close\<close> sends the exit command and then tears the connection down
  unconditionally, exactly once even when the send fails. It does not: on a socket whose
  send fails, \<open>close\<close> returns -1 from the failure branch, and the trace holds the send
  and no teardown.
\<close>

theorem close_failed_send_no_teardown:
  "close stack0 refusing = Some (-1, refusing\<lparr>trace := [Send ''trick.var_exit()\<newline>'']\<rparr>)
   \<and> teardowns refusing (refusing\<lparr>trace := [Send ''trick.var_exit()\<newline>'']\<rparr>) = 0"
  by (simp add: close_step refusing_def teardowns_def)

text \<open>
  C2, amended: \<open>close\<close> sends the exit command \<open>trick.var_exit()\<close>; when that send
  fails it returns failure, having made that one write and no teardown: the connection
  is left open. The call that follows a successful send stands in the success branch
  only.
\<close>

theorem close_after_failed_send:
  assumes "send_returns t (trace t) ''trick.var_exit()\<newline>'' = None"
  shows "close stk t = Some (-1, t\<lparr>trace := trace t @ [Send ''trick.var_exit()\<newline>'']\<rparr>)
         \<and> writes t (t\<lparr>trace := trace t @ [Send ''trick.var_exit()\<newline>'']\<rparr>)
             = [''trick.var_exit()\<newline>'']
         \<and> teardowns t (t\<lparr>trace := trace t @ [Send ''trick.var_exit()\<newline>'']\<rparr>) = 0"
  using assms by (simp add: close_step writes_def teardowns_def)

theorem close_after_failed_send_witness:
  "send_returns (hangup_after 0) (trace (hangup_after 0)) ''trick.var_exit()\<newline>'' = None
   \<and> close stack0 (hangup_after 0)
       = Some (-1, (hangup_after 0)\<lparr>trace := [Send ''trick.var_exit()\<newline>'']\<rparr>)
   \<and> teardowns (hangup_after 0)
        ((hangup_after 0)\<lparr>trace := [Send ''trick.var_exit()\<newline>'']\<rparr>) = 0"
proof -
  have h: "send_returns (hangup_after 0) (trace (hangup_after 0)) ''trick.var_exit()\<newline>'' = None"
    by (simp add: hangup_after_def)
  have e: "trace (hangup_after 0) = []"
    by (simp add: hangup_after_def)
  show ?thesis
    using h close_after_failed_send [OF h, of stack0] by (simp add: e)
qed

text \<open>
  C9: whenever the send of the exit command succeeds, \<open>close\<close> calls itself on the
  same socket, and never a teardown of the operating system: its result is that of the
  recursive call, with 0 for the return value. So the exit command is handed to \<open>send\<close>
  a second time, whatever happens next; a call that returns after a first successful
  send has written \<open>trick.var_exit()\<close> twice or more, and nothing else, and has made
  no teardown; and on a socket whose sends always succeed \<open>close\<close> never returns.
\<close>

theorem close_calls_itself:
  "(send_returns t (trace t) ''trick.var_exit()\<newline>'' \<noteq> None \<longrightarrow>
      close stk t =
        Option.bind
          (close (callee stk 0) (t\<lparr>trace := trace t @ [Send ''trick.var_exit()\<newline>'']\<rparr>))
          (\<lambda>(_, t''). Some (0, t'')))
   \<and> (send_returns t (trace t) ''trick.var_exit()\<newline>'' \<noteq> None \<longrightarrow>
      close stk t =
        (case send_returns t (trace t @ [Send ''trick.var_exit()\<newline>''])
                ''trick.var_exit()\<newline>'' of
           None \<Rightarrow>
             Some (0, t\<lparr>trace := trace t @ [Send ''trick.var_exit()\<newline>'',
                                            Send ''trick.var_exit()\<newline>'']\<rparr>)
         | Some k \<Rightarrow>
             Option.bind
               (close (callee (callee stk 0) 0)
                  (t\<lparr>trace := trace t @ [Send ''trick.var_exit()\<newline>'',
                                         Send ''trick.var_exit()\<newline>'']\<rparr>))
               (\<lambda>(_, t''). Some (0, t''))))
   \<and> (send_returns t (trace t) ''trick.var_exit()\<newline>'' \<noteq> None \<and> close stk t = Some (r, t') \<longrightarrow>
        2 \<le> length (writes t t') \<and> set (writes t t') = {''trick.var_exit()\<newline>''}
        \<and> teardowns t t' = 0)
   \<and> ((\<forall>tr b. send_returns t tr b \<noteq> None) \<longrightarrow> close stk t = None)"
proof (intro conjI impI)
  assume "send_returns t (trace t) ''trick.var_exit()\<newline>'' \<noteq> None"
  then show "close stk t =
      Option.bind
        (close (callee stk 0) (t\<lparr>trace := trace t @ [Send ''trick.var_exit()\<newline>'']\<rparr>))
        (\<lambda>(_, t''). Some (0, t''))"
    by (subst close_step) auto
next
  assume "send_returns t (trace t) ''trick.var_exit()\<newline>'' \<noteq> None"
  then show "close stk t =
      (case send_returns t (trace t @ [Send ''trick.var_exit()\<newline>''])
              ''trick.var_exit()\<newline>'' of
         None \<Rightarrow>
           Some (0, t\<lparr>trace := trace t @ [Send ''trick.var_exit()\<newline>'',
                                          Send ''trick.var_exit()\<newline>'']\<rparr>)
       | Some k \<Rightarrow>
           Option.bind
             (close (callee (callee stk 0) 0)
                (t\<lparr>trace := trace t @ [Send ''trick.var_exit()\<newline>'',
                                       Send ''trick.var_exit()\<newline>'']\<rparr>))
             (\<lambda>(_, t''). Some (0, t'')))"
    by (rule close_two_steps)
next
  assume a: "send_returns t (trace t) ''trick.var_exit()\<newline>'' \<noteq> None \<and> close stk t = Some (r, t')"
  then obtain n where n: "trace t' = trace t @ replicate (Suc n) (Send ''trick.var_exit()\<newline>'')"
    and "0 < n"
    using close_returned_trace [of stk t "(r, t')"] by auto
  have s: "sent (replicate m (Send b)) = replicate m b" for m b
    by (induction m) simp_all
  have w: "writes t t' = replicate (Suc n) ''trick.var_exit()\<newline>''"
    using n by (simp add: writes_def s del: replicate_Suc)
  show "2 \<le> length (writes t t')"
    using \<open>0 < n\<close> by (simp add: w)
  show "set (writes t t') = {''trick.var_exit()\<newline>''}"
    by (simp add: w del: replicate_Suc)
  show "teardowns t t' = 0"
    using n by (simp add: teardowns_def del: replicate_Suc)
next
  assume "\<forall>tr b. send_returns t tr b \<noteq> None"
  then show "close stk t = None"
    by (rule close_never_returns)
qed

theorem close_calls_itself_witness:
  "send_returns (hangup_after 1) (trace (hangup_after 1)) ''trick.var_exit()\<newline>'' \<noteq> None
   \<and> close stack0 (hangup_after 1)
       = Some (0, (hangup_after 1)
                    \<lparr>trace := [Send ''trick.var_exit()\<newline>'', Send ''trick.var_exit()\<newline>'']\<rparr>)
   \<and> 2 \<le> length (writes (hangup_after 1)
                      ((hangup_after 1)
                         \<lparr>trace := [Send ''trick.var_exit()\<newline>'', Send ''trick.var_exit()\<newline>'']\<rparr>))
   \<and> teardowns (hangup_after 1)
        ((hangup_after 1)
           \<lparr>trace := [Send ''trick.var_exit()\<newline>'', Send ''trick.var_exit()\<newline>'']\<rparr>) = 0
   \<and> (\<forall>tr b. send_returns accepting tr b \<noteq> None)
   \<and> close stack0 accepting = None"
proof -
  let ?t2 = "(hangup_after 1)
      \<lparr>trace := [Send ''trick.var_exit()\<newline>'', Send ''trick.var_exit()\<newline>'']\<rparr>"
  have h: "send_returns (hangup_after 1) (trace (hangup_after 1)) ''trick.var_exit()\<newline>'' \<noteq> None"
    by (simp add: hangup_after_def)
  have c: "close stack0 (hangup_after 1) = Some (0, ?t2)"
    by (simp add: close_step hangup_after_def)
  have a: "\<forall>tr b. send_returns accepting tr b \<noteq> None"
    by (simp add: accepting_def)
  have b: "2 \<le> length (writes (hangup_after 1) ?t2) \<and> teardowns (hangup_after 1) ?t2 = 0"
    using close_calls_itself [of "hangup_after 1" stack0 0 ?t2] h c by blast
  have n: "close stack0 accepting = None"
    using close_calls_itself [of accepting stack0] a by blast
  from h c b a n show ?thesis
    by blast
qed

section \<open>Oversized and cut commands\<close>

lemma assembled_long:
  assumes "\<And>p. strlen (lf p) \<le> 317" and "512 < length (template lf c) + 1"
  shows "510 < length (assembled lf c)"
proof (cases c)
  case (Set_cycle period)
  then show ?thesis
    using assms(1) [of period] assms(2) by (simp add: length_cstr)
next
  case (Set_copy_mode mode)
  then show ?thesis
    using length_fmt_i [of mode] assms(2) by simp
next
  case (Set_debug_level level)
  then show ?thesis
    using length_fmt_i [of level] assms(2) by simp
qed (use assms(2) in simp_all)

text \<open>
  C4: for every command-building operation and every argument for which the length of
  the template plus 1 exceeds the bound of 512 bytes, the operation fails and makes no
  transport write: the socket is as it was. (A \<open>double\<close> renders with \<open>%lf\<close> into at
  most 317 bytes, which is what the first hypothesis says of the parameter \<open>lf\<close>.)
\<close>

theorem oversized_command_refused:
  assumes "\<And>p. strlen (lf p) \<le> 317" and "512 < length (template lf c) + 1"
  shows "perform lf stk t c = (-1, t) \<and> writes t (snd (perform lf stk t c)) = []"
  using assembled_long [OF assms] by (simp add: perform_eq writes_none)

theorem oversized_command_refused_witness:
  "(\<forall>p. strlen (fixed_lf p) \<le> 317)
   \<and> 512 < length (template fixed_lf (Add_variable (replicate 495 CHR ''a''))) + 1
   \<and> perform fixed_lf stack0 accepting (Add_variable (replicate 495 CHR ''a'')) = (-1, accepting)
   \<and> writes accepting
        (snd (perform fixed_lf stack0 accepting (Add_variable (replicate 495 CHR ''a'')))) = []"
proof -
  have a: "\<And>p. strlen (fixed_lf p) \<le> 317"
    by (simp add: fixed_lf_def strlen_def cstr_def NUL_def)
  have b: "512 < length (template fixed_lf (Add_variable (replicate 495 CHR ''a''))) + 1"
    by (simp add: cstr_def NUL_def)
  have c: "perform fixed_lf stack0 accepting (Add_variable (replicate 495 CHR ''a'')) = (-1, accepting)
      \<and> writes accepting
          (snd (perform fixed_lf stack0 accepting (Add_variable (replicate 495 CHR ''a'')))) = []"
    by (rule oversized_command_refused [OF a b])
  from a b c show ?thesis
    by blast
qed

text \<open>
  C1 asks that a command which reports success has put the documented template on the
  wire, its arguments whole. \<open>set_copy_mode\<close> with the mode 1000 reports success and
  has sent \<open>trick.var_set_copy_mode(100)\<close>: \<open>snprintf\<close> cut the number to the 3 bytes
  that \<open>mod[4]\<close> holds, before any length was computed.
\<close>

theorem copy_mode_1000_cut:
  "set_copy_mode stack0 accepting 1000
     = (0, accepting\<lparr>trace := [Send ''trick.var_set_copy_mode(100)\<newline>'']\<rparr>)
   \<and> template fixed_lf (Set_copy_mode 1000) @ ''\<newline>'' = ''trick.var_set_copy_mode(1000)\<newline>''"
  by (simp add: set_copy_mode_eq report_def transmit_def send_def accepting_def fmt_i_def
    dec.simps)

text \<open>
  What does hold of every command: when the code has cut nothing, a call that reports
  success has made exactly one write, of the template and one newline.
\<close>

lemma uncut_command_wire:
  assumes "assembled lf c = template lf c" and "fst (perform lf stk t c) = 0"
  shows "trace (snd (perform lf stk t c)) = trace t @ [Send (template lf c @ ''\<newline>'')]"
proof (cases "510 < length (assembled lf c)")
  case True
  then show ?thesis
    using assms(2) by (simp add: perform_eq)
next
  case False
  then show ?thesis
    using assms(1) by (simp add: trace_perform)
qed

section \<open>No hidden state\<close>








section \<open>Receiving\<close>

text \<open>A count below \<open>2 ^ 32\<close>, returned through the \<open>int\<close> of 32 bits.\<close>

lemma int_of_count:
  assumes "0 \<le> k" and "k < 2 ^ 32"
  shows "sint (word_of_int k :: 32 word) = (if k < 2 ^ 31 then k else k - 2 ^ 32)"
proof (cases "k < 2 ^ 31")
  case True
  then have "signed_take_bit 31 k = k"
    using assms(1) by (intro signed_take_bit_int_eq_self) simp_all
  with True show ?thesis
    by (simp add: sint_sbintrunc')
next
  case False
  have "take_bit 32 k = take_bit 32 (k - 2 ^ 32)"
    by (simp add: take_bit_eq_mod)
  then have "signed_take_bit 31 k = signed_take_bit 31 (k - 2 ^ 32)"
    by (simp add: signed_take_bit_eq_iff_take_bit_eq)
  also have "\<dots> = k - 2 ^ 32"
    using False assms(2) by (intro signed_take_bit_int_eq_self) simp_all
  finally show ?thesis
    using False by (simp add: sint_sbintrunc')
qed

lemma receive_eq:
  "receive_message_from_variable_server t lenght flags =
     (case arriving t (trace t) of
        Data c cs \<Rightarrow>
          (if length (take (unat lenght) (c # cs)) < 2 ^ 31
           then int (length (take (unat lenght) (c # cs)))
           else int (length (take (unat lenght) (c # cs))) - 2 ^ 32,
           take (unat lenght) (c # cs),
           t\<lparr>trace := trace t @ [Recv (unat lenght) flags]\<rparr>)
      | Orderly_shutdown \<Rightarrow> (0, [], t\<lparr>trace := trace t @ [Recv (unat lenght) flags]\<rparr>)
      | Recv_error \<Rightarrow> (-1, [], t\<lparr>trace := trace t @ [Recv (unat lenght) flags]\<rparr>))"
proof (cases "arriving t (trace t)")
  case (Data c cs)
  have "unat lenght < 2 ^ 32"
    using unsigned_less [of lenght, where 'a = nat] by simp
  then have "int (length (take (unat lenght) (c # cs))) < 2 ^ 32"
    by simp
  from int_of_count [OF _ this] Data show ?thesis
    by (simp add: receive_message_from_variable_server_def recv_def Let_def
      del: of_int_of_nat_eq)
next
  case Orderly_shutdown
  then show ?thesis
    by (simp add: receive_message_from_variable_server_def recv_def Let_def)
next
  case Recv_error
  then show ?thesis
    by (simp add: receive_message_from_variable_server_def recv_def Let_def)
qed

text \<open>
  C7, as stated: \<open>receive\<close> returns 0 exactly when the peer has performed an orderly
  shutdown and no data is available. It does not: asked for 0 bytes, on a socket with a
  byte pending and a peer that has not shut down, the single \<open>recv\<close> call returns 0,
  and so does \<open>receive\<close>.
\<close>

theorem receive_zero_length_returns_zero:
  "arriving (delivering CHR ''x'' []) (trace (delivering CHR ''x'' [])) = Data CHR ''x'' []
   \<and> receive_message_from_variable_server (delivering CHR ''x'' []) 0 0
       = (0, [], (delivering CHR ''x'' [])\<lparr>trace := [Recv 0 0]\<rparr>)"
  by (simp add: receive_message_from_variable_server_def recv_def delivering_def)

text \<open>
  C7, amended: \<open>receive\<close> makes a single \<open>recv\<close> call, for at most \<open>max_length\<close>
  bytes and with the caller's flags, stores what it read, and returns the result of the
  call as an \<open>int\<close>: the count of bytes read, which never exceeds \<open>max_length\<close> (a
  count above \<open>2 ^ 31 - 1\<close> comes back less \<open>2 ^ 32\<close>, negative); 0 at an orderly
  shutdown of the peer with no data available; -1 on error. It returns 0 exactly at an
  orderly shutdown or, with data pending, when \<open>max_length\<close> is 0.
\<close>

theorem receive_single_call:
  "receive_message_from_variable_server t lenght flags =
     (case arriving t (trace t) of
        Data c cs \<Rightarrow>
          (if length (take (unat lenght) (c # cs)) < 2 ^ 31
           then int (length (take (unat lenght) (c # cs)))
           else int (length (take (unat lenght) (c # cs))) - 2 ^ 32,
           take (unat lenght) (c # cs),
           t\<lparr>trace := trace t @ [Recv (unat lenght) flags]\<rparr>)
      | Orderly_shutdown \<Rightarrow> (0, [], t\<lparr>trace := trace t @ [Recv (unat lenght) flags]\<rparr>)
      | Recv_error \<Rightarrow> (-1, [], t\<lparr>trace := trace t @ [Recv (unat lenght) flags]\<rparr>))
   \<and> length (fst (snd (receive_message_from_variable_server t lenght flags))) \<le> unat lenght
   \<and> fst (receive_message_from_variable_server t lenght flags) \<le> int (unat lenght)
   \<and> (fst (receive_message_from_variable_server t lenght flags) = 0) =
       (arriving t (trace t) = Orderly_shutdown
        \<or> lenght = 0 \<and> arriving t (trace t) \<noteq> Recv_error)"
proof (intro conjI)
  show "receive_message_from_variable_server t lenght flags =
     (case arriving t (trace t) of
        Data c cs \<Rightarrow>
          (if length (take (unat lenght) (c # cs)) < 2 ^ 31
           then int (length (take (unat lenght) (c # cs)))
           else int (length (take (unat lenght) (c # cs))) - 2 ^ 32,
           take (unat lenght) (c # cs),
           t\<lparr>trace := trace t @ [Recv (unat lenght) flags]\<rparr>)
      | Orderly_shutdown \<Rightarrow> (0, [], t\<lparr>trace := trace t @ [Recv (unat lenght) flags]\<rparr>)
      | Recv_error \<Rightarrow> (-1, [], t\<lparr>trace := trace t @ [Recv (unat lenght) flags]\<rparr>))"
    by (rule receive_eq)
  have b: "unat lenght < 2 ^ 32"
    using unsigned_less [of lenght, where 'a = nat] by simp
  show "length (fst (snd (receive_message_from_variable_server t lenght flags))) \<le> unat lenght"
    by (simp add: receive_eq split: incoming.split)
  show "fst (receive_message_from_variable_server t lenght flags) \<le> int (unat lenght)"
  proof (cases "arriving t (trace t)")
    case (Data c cs)
    have "int (length (take (unat lenght) (c # cs))) \<le> int (unat lenght)"
      by (simp del: of_nat_unat)
    then have "(if length (take (unat lenght) (c # cs)) < 2 ^ 31
                then int (length (take (unat lenght) (c # cs)))
                else int (length (take (unat lenght) (c # cs))) - 2 ^ 32) \<le> int (unat lenght)"
      by (simp del: length_take of_nat_unat)
    then show ?thesis
      using Data by (simp add: receive_eq del: length_take of_nat_unat)
  next
    case Orderly_shutdown
    then show ?thesis
      by (simp add: receive_eq)
  next
    case Recv_error
    have "- 1 \<le> int (unat lenght)"
      by linarith
    then show ?thesis
      using Recv_error by (simp add: receive_eq del: of_nat_unat)
  qed
  show "(fst (receive_message_from_variable_server t lenght flags) = 0) =
       (arriving t (trace t) = Orderly_shutdown
        \<or> lenght = 0 \<and> arriving t (trace t) \<noteq> Recv_error)"
  proof (cases "arriving t (trace t)")
    case (Data c cs)
    define n where "n = length (take (unat lenght) (c # cs))"
    have "n < 2 ^ 32"
      using b by (simp add: n_def)
    moreover have "(n = 0) = (lenght = 0)"
    proof -
      have "(unat lenght = 0) = (lenght = 0)"
        by (rule unat_eq_0)
      then show ?thesis
        by (auto simp: n_def min_def)
    qed
    ultimately have "((if n < 2 ^ 31 then int n else int n - 2 ^ 32) = 0) = (lenght = 0)"
      by auto
    then show ?thesis
      using Data unfolding n_def by (simp add: receive_eq del: length_take take_eq_Nil)
  next
    case Orderly_shutdown
    then show ?thesis
      by (simp add: receive_eq)
  next
    case Recv_error
    then show ?thesis
      by (simp add: receive_eq)
  qed
qed

theorem receive_single_call_witness:
  "receive_message_from_variable_server (delivering CHR ''o'' ''k'') 2000 0
     = (2, ''ok'', (delivering CHR ''o'' ''k'')\<lparr>trace := [Recv 2000 0]\<rparr>)
   \<and> receive_message_from_variable_server (delivering CHR ''o'' ''k'') 1 0
     = (1, ''o'', (delivering CHR ''o'' ''k'')\<lparr>trace := [Recv 1 0]\<rparr>)
   \<and> receive_message_from_variable_server accepting 2000 0
     = (0, [], accepting\<lparr>trace := [Recv 2000 0]\<rparr>)"
  using receive_single_call [of "delivering CHR ''o'' ''k''" 2000 0]
    receive_single_call [of "delivering CHR ''o'' ''k''" 1 0]
    receive_single_call [of accepting 2000 0]
  by (simp add: delivering_def accepting_def)

end
